theory Spec2Isabelle
  imports Complex_Main "HOL-Library.Word"
begin

section \<open>The Sidekiq radio adapter (lib/sidekiq\_base.cc)\<close>

text \<open>
  The adapter class \<open>sidekiq_base<HdlType>\<close> wraps the vendor library libsidekiq. Every
  member function is embedded as a function from the adapter object and the world to an
  outcome, the adapter object afterwards and the world afterwards. The object is returned
  in every outcome, because a C++ exception leaves the fields written so far in place.

  The vendor library is not part of the program. It is a parameter of the model: an
  arbitrary function from the calls made so far and the present call to a reply. The world
  records every call made to it, in order, and every line printed with \<open>printf\<close>.
\<close>

subsection \<open>Machine types\<close>

text \<open>
  \<open>int\<close> is 32 bits wide; \<open>size_t\<close> and \<open>long\<close> are 64 bits wide.
\<close>

type_synonym uint8_t = "8 word"
type_synonym int32_t = "32 word"
type_synonym uint32_t = "32 word"
type_synonym uint64_t = "64 word"

text \<open>
  A \<open>double\<close> argument is modelled by the real number it denotes. The conversion
  \<open>static_cast<uintN_t>(x)\<close> discards the fractional part; when the truncated value is
  not representable in the destination type the behaviour of the C++ program is undefined,
  which is the value \<open>None\<close> here. (NaN and the infinities denote no real number; their
  conversion is undefined as well.)
\<close>

definition fp_trunc :: "real \<Rightarrow> int" where
  "fp_trunc x = (if 0 \<le> x then \<lfloor>x\<rfloor> else \<lceil>x\<rceil>)"

definition static_cast_uint32_t :: "real \<Rightarrow> uint32_t option" where
  "static_cast_uint32_t x =
     (if 0 \<le> fp_trunc x \<and> fp_trunc x < 2 ^ 32 then Some (word_of_int (fp_trunc x)) else None)"

definition static_cast_uint64_t :: "real \<Rightarrow> uint64_t option" where
  "static_cast_uint64_t x =
     (if 0 \<le> fp_trunc x \<and> fp_trunc x < 2 ^ 64 then Some (word_of_int (fp_trunc x)) else None)"

subsection \<open>The vendor library and the world\<close>

text \<open>
  One constructor for each libsidekiq entry point the adapter calls, with the arguments
  passed by value (for \<open>skiq_init\<close> the card index; its other arguments are
  constants). The entries ending in \<open>_func\<close> are the members of the dispatch table
  \<open>sidekiq_functions\<close>, bound to the transmit or the receive entry points.
\<close>

datatype 'h sdk_call =
    Skiq_init uint8_t
  | Skiq_read_sys_timestamp_freq uint8_t
  | Skiq_read_parameters uint8_t
  | Skiq_reset_timestamps uint8_t
  | Skiq_update_timestamps uint8_t uint64_t
  | Skiq_read_curr_sys_timestamp uint8_t
  | Skiq_is_accel_supported uint8_t
  | Skiq_write_accel_state uint8_t uint8_t
  | Skiq_read_accel uint8_t
  | Start_streaming_func uint8_t 'h
  | Stop_streaming_func uint8_t 'h
  | Set_sample_rate_func uint8_t 'h uint32_t uint32_t
  | Set_frequency_func uint8_t 'h uint64_t

text \<open>The part of \<open>skiq_param_t\<close> that the adapter reads: the I/Q resolution per handle.\<close>

record 'h skiq_param_t =
  rx_iq_resolution :: "'h \<Rightarrow> nat"
  tx_iq_resolution :: "'h \<Rightarrow> nat"

text \<open>
  What a call gives back: its status and the values it stores through its pointer
  arguments (a 64-bit value, a flag, the parameter block). A call reads the field that
  belongs to it and ignores the others.
\<close>

record 'h sdk_reply =
  status :: int32_t
  out_u64 :: uint64_t
  out_flag :: bool
  out_params :: "'h skiq_param_t"

type_synonym 'h hardware = "'h sdk_call list \<Rightarrow> 'h sdk_call \<Rightarrow> 'h sdk_reply"

text \<open>
  A console line is the format string given to \<open>printf\<close> (without its line end)
  together with its integer arguments; the text of \<open>strerror\<close> is fixed by them.
\<close>

record 'h world =
  calls :: "'h sdk_call list"
  console :: "(string \<times> int list) list"

definition sdk :: "'h hardware \<Rightarrow> 'h sdk_call \<Rightarrow> 'h world \<Rightarrow> 'h sdk_reply \<times> 'h world" where
  "sdk hw c w = (hw (calls w) c, w\<lparr>calls := calls w @ [c]\<rparr>)"

definition printf :: "string \<Rightarrow> int list \<Rightarrow> 'h world \<Rightarrow> 'h world" where
  "printf fmt args w = w\<lparr>console := console w @ [(fmt, args)]\<rparr>"

subsection \<open>The adapter object and the outcome of a member function\<close>

text \<open>
  The fields are declared in a header that is not part of the source file; each field has
  the type of the values the source file assigns to it. The field \<open>card\<close> is named
  \<open>card_no\<close> here.
\<close>

record 'h sidekiq_base =
  card_no :: uint8_t
  hdl :: 'h
  hdl2 :: 'h
  dual_channel :: bool
  debug_ctr :: int32_t
  sample_rate :: uint32_t
  bandwidth :: uint32_t
  timestamp_frequency :: uint64_t
  sidekiq_system_time_interval_nanos :: uint64_t
  sidekiq_params :: "'h skiq_param_t"
  adc_scaling :: real
  dac_scaling :: real

text \<open>
  A member function returns a value, throws \<open>std::runtime_error\<close> with a message, or
  runs into undefined behaviour (an out-of-range conversion, a division by zero). In the
  last case nothing is known about what follows; the object and the world are then those
  at the point where the behaviour became undefined.
\<close>

datatype 'a outcome = Returns 'a | Throws string | Undefined_behaviour

type_synonym ('a, 'h) result = "'a outcome \<times> 'h sidekiq_base \<times> 'h world"

definition SYNC_ZERO :: int32_t where "SYNC_ZERO = 1"
definition SYNC_GPS_PPS :: int32_t where "SYNC_GPS_PPS = 2"
definition SYNC_SYSTEM_TIME :: int32_t where "SYNC_SYSTEM_TIME = 3"
definition NANOSECONDS_IN_SECOND :: uint64_t where "NANOSECONDS_IN_SECOND = 1000000000"

subsection \<open>Timestamps\<close>

definition set_zero_timestamp ::
  "'h hardware \<Rightarrow> 'h sidekiq_base \<Rightarrow> 'h world \<Rightarrow> (unit, 'h) result" where
  "set_zero_timestamp hw s w =
     (let (r, w1) = sdk hw (Skiq_reset_timestamps (card_no s)) w in
      if status r \<noteq> 0
      then (Throws ''Failure: skiq_reset_timestamps'', s,
            printf ''Error: failed to set timestamp to zero'' [] w1)
      else (Returns (), s, w1))"

definition set_sidekiq_system_timestamp ::
  "'h hardware \<Rightarrow> 'h sidekiq_base \<Rightarrow> 'h world \<Rightarrow> uint64_t \<Rightarrow> (unit, 'h) result" where
  "set_sidekiq_system_timestamp hw s w timestamp =
     (let (r, w1) = sdk hw (Skiq_update_timestamps (card_no s) timestamp) w in
      if status r \<noteq> 0
      then (Throws ''Failure: skiq_update_timestamps'', s,
            printf ''Error: failed to set system timestamp'' [] w1)
      else (Returns (), s, w1))"

definition get_sidekiq_system_timestamp ::
  "'h hardware \<Rightarrow> 'h sidekiq_base \<Rightarrow> 'h world \<Rightarrow> (uint64_t, 'h) result" where
  "get_sidekiq_system_timestamp hw s w =
     (let (r, w1) = sdk hw (Skiq_read_curr_sys_timestamp (card_no s)) w in
      if status r \<noteq> 0
      then (Throws ''Failure: skiq_read_curr_sys_timestamp'', s,
            printf ''Error: failed to get system timestamp'' [] w1)
      else (Returns (out_u64 r), s, w1))"

definition get_sys_timestamp_frequency ::
  "'h hardware \<Rightarrow> 'h sidekiq_base \<Rightarrow> 'h world \<Rightarrow> (uint64_t, 'h) result" where
  "get_sys_timestamp_frequency hw s w =
     (let (r, w1) = sdk hw (Skiq_read_sys_timestamp_freq (card_no s)) w in
      if status r \<noteq> 0
      then (Throws ''Failure: skiq_read_sys_timestamp_freq'', s,
            printf ''Error: failed to get system timestamp frequency'' [] w1)
      else (Returns (out_u64 r), s, w1))"

text \<open>
  \<open>set_sync_type\<close>. The argument \<open>now\<close> is what \<open>system_clock::now()\<close> gives, as the
  count of nanoseconds since the epoch; it is read on the host-clock branch only. The
  count is a signed 64-bit value and the interval an unsigned one, so the division is the
  unsigned 64-bit division; a zero interval makes it undefined.
\<close>

definition set_sync_type ::
  "'h hardware \<Rightarrow> uint64_t \<Rightarrow> 'h sidekiq_base \<Rightarrow> 'h world \<Rightarrow> int32_t \<Rightarrow> (unit, 'h) result" where
  "set_sync_type hw now s w type =
     (if type = SYNC_ZERO then set_zero_timestamp hw s w
      else if type = SYNC_GPS_PPS then (Returns (), s, w)
      else if type = SYNC_SYSTEM_TIME then
        (let system_clock_nanos = now in
         if sidekiq_system_time_interval_nanos s = 0 then (Undefined_behaviour, s, w)
         else
           (let sidekiq_timestamp = system_clock_nanos div sidekiq_system_time_interval_nanos s
            in set_sidekiq_system_timestamp hw s w sidekiq_timestamp))
      else (Returns (), s, w))"

text \<open>
  Sequencing: what follows a member call or a guarded block runs only when that one
  returned; an exception or undefined behaviour ends the enclosing function.
\<close>

definition and_then ::
  "('a, 'h) result \<Rightarrow> ('a \<Rightarrow> 'h sidekiq_base \<Rightarrow> 'h world \<Rightarrow> ('b, 'h) result) \<Rightarrow> ('b, 'h) result" where
  "and_then m f =
     (case m of
        (Returns x, s, w) \<Rightarrow> f x s w
      | (Throws e, s, w) \<Rightarrow> (Throws e, s, w)
      | (Undefined_behaviour, s, w) \<Rightarrow> (Undefined_behaviour, s, w))"

subsection \<open>Construction\<close>

text \<open>
  The constructor. \<open>raw\<close> is the object before construction (the fields the constructor
  does not assign keep what they hold). \<open>input_card_number\<close> is an \<open>int\<close> and is
  narrowed to the 8-bit card index. A timestamp frequency of zero makes the division
  undefined. The two scaling factors are \<open>pow(2, resolution) / 2 - 1\<close>, computed
  over the reals here; the floating-point computation of the source gives the same value
  as long as that value is representable in the floating-point type (a resolution of 64
  bits gives \<open>2^63\<close> there instead of \<open>2^63 - 1\<close>).
\<close>

definition sidekiq_base_ctor ::
  "'h hardware \<Rightarrow> uint64_t \<Rightarrow> 'h sidekiq_base \<Rightarrow> 'h world \<Rightarrow>
   int32_t \<Rightarrow> int32_t \<Rightarrow> 'h \<Rightarrow> 'h \<Rightarrow> (unit, 'h) result" where
  "sidekiq_base_ctor hw now raw w input_card_number sync_type port1_handle port2_handle =
     (let s = raw\<lparr>card_no := ucast input_card_number, hdl := port1_handle,
                   hdl2 := port2_handle, dual_channel := False, debug_ctr := 0\<rparr>;
          (r, w1) = sdk hw (Skiq_init (card_no s)) w
      in if status r \<noteq> 0
         then (Throws ''Failure: skiq_init'', s,
               printf ''Error: unable to initialize libsidekiq with status %d'' [sint (status r)] w1)
         else
           and_then (get_sys_timestamp_frequency hw s w1) (\<lambda>f s w.
             (let s = s\<lparr>timestamp_frequency := f\<rparr> in
              if timestamp_frequency s = 0 then (Undefined_behaviour, s, w)
              else
                (let s = s\<lparr>sidekiq_system_time_interval_nanos :=
                             NANOSECONDS_IN_SECOND div timestamp_frequency s\<rparr>;
                     (p, w) = sdk hw (Skiq_read_parameters (card_no s)) w;
                     s = s\<lparr>sidekiq_params := out_params p\<rparr>;
                     s = s\<lparr>adc_scaling := 2 ^ rx_iq_resolution (sidekiq_params s) (hdl s) / 2 - 1\<rparr>;
                     s = s\<lparr>dac_scaling := 2 ^ tx_iq_resolution (sidekiq_params s) (hdl s) / 2 - 1\<rparr>
                 in set_sync_type hw now s w sync_type))))"

subsection \<open>Telemetry\<close>

text \<open>
  The values of the message library (pmt) that the adapter builds, and its dictionary as a
  finite map from keys to values; \<open>dict_add\<close> binds a key, replacing an earlier binding.
  The library is an external collaborator of the adapter.
\<close>

datatype pmt_t =
    PMT_long int
  | PMT_uint64 nat
  | PMT_double real
  | PMT_cons pmt_t pmt_t
  | PMT_tuple "pmt_t list"

type_synonym 'k pmt_dict = "'k \<rightharpoonup> pmt_t"

definition make_dict :: "'k pmt_dict" where
  "make_dict = Map.empty"

definition dict_add :: "'k pmt_dict \<Rightarrow> 'k \<Rightarrow> pmt_t \<Rightarrow> 'k pmt_dict" where
  "dict_add d k v = d(k \<mapsto> v)"

text \<open>
  The remainder \<open>timestamp % NANOSECONDS_IN_SECOND\<close> is below \<open>2^53\<close>, so its
  conversion to \<open>double\<close> is exact. The quotient by \<open>1e9\<close> is rounded to a
  \<open>double\<close>; \<open>rnd\<close> is that rounding, a parameter of the model. \<open>from_long\<close> takes
  a signed 64-bit value.
\<close>

definition get_pmt_tuple_from_timestamp :: "(real \<Rightarrow> real) \<Rightarrow> uint64_t \<Rightarrow> pmt_t" where
  "get_pmt_tuple_from_timestamp rnd timestamp =
     (let seconds = timestamp div NANOSECONDS_IN_SECOND;
          fractional = rnd (real (unat (timestamp mod NANOSECONDS_IN_SECOND)) / 1000000000)
      in PMT_tuple [PMT_uint64 (unat seconds), PMT_double fractional])"

definition get_pmt_cons_from_timestamp :: "(real \<Rightarrow> real) \<Rightarrow> uint64_t \<Rightarrow> pmt_t" where
  "get_pmt_cons_from_timestamp rnd timestamp =
     (let seconds = timestamp div NANOSECONDS_IN_SECOND;
          fractional = rnd (real (unat (timestamp mod NANOSECONDS_IN_SECOND)) / 1000000000)
      in PMT_cons (PMT_long (sint seconds)) (PMT_double fractional))"

text \<open>
  \<open>get_telemetry_pmt\<close>. The two keys \<open>CMD_CURRENT_USRP_TIME\<close> and
  \<open>CMD_CURRENT_HOST_TIME\<close> are constants of the header and are parameters here, as is
  the host clock \<open>now\<close>. The product of timestamp and interval wraps at \<open>2^64\<close>.
\<close>

definition get_telemetry_pmt ::
  "'h hardware \<Rightarrow> (real \<Rightarrow> real) \<Rightarrow> uint64_t \<Rightarrow> 'k \<Rightarrow> 'k \<Rightarrow>
   'h sidekiq_base \<Rightarrow> 'h world \<Rightarrow> ('k pmt_dict, 'h) result" where
  "get_telemetry_pmt hw rnd now CMD_CURRENT_USRP_TIME CMD_CURRENT_HOST_TIME s w =
     and_then (get_sidekiq_system_timestamp hw s w) (\<lambda>timestamp s w.
       (let sidekiq_time_nanos = timestamp * sidekiq_system_time_interval_nanos s;
            system_clock_nanos = now;
            result = make_dict;
            result = dict_add result CMD_CURRENT_USRP_TIME
                       (get_pmt_cons_from_timestamp rnd sidekiq_time_nanos);
            result = dict_add result CMD_CURRENT_HOST_TIME
                       (get_pmt_cons_from_timestamp rnd system_clock_nanos)
        in (Returns result, s, w)))"

subsection \<open>Accelerometer\<close>

text \<open>
  \<open>read_accelerometer\<close>. The statuses of \<open>skiq_is_accel_supported\<close> and of the two
  \<open>skiq_write_accel_state\<close> calls are not looked at; \<open>supported\<close> starts as
  \<open>false\<close> and holds what the library stored in it.
\<close>

definition read_accelerometer ::
  "'h hardware \<Rightarrow> 'h sidekiq_base \<Rightarrow> 'h world \<Rightarrow> (unit, 'h) result" where
  "read_accelerometer hw s w =
     (let (q, w) = sdk hw (Skiq_is_accel_supported (card_no s)) w;
          supported = out_flag q
      in if \<not> supported
         then (Returns (), s, printf ''Info: accelerometer not supported with product'' [] w)
         else
           (let (on, w) = sdk hw (Skiq_write_accel_state (card_no s) 1) w;
                (r, w) = sdk hw (Skiq_read_accel (card_no s)) w;
                (off, w) = sdk hw (Skiq_write_accel_state (card_no s) 0) w
            in if status r \<noteq> 0
               then (Throws ''Failure: skiq_write_accel_state'', s,
                     printf ''Error: Unable to read the accelerometer'' [] w)
               else (Returns (), s, w)))"

subsection \<open>Streaming, sample rate and frequency\<close>

definition start_streaming ::
  "'h hardware \<Rightarrow> 'h sidekiq_base \<Rightarrow> 'h world \<Rightarrow> (int32_t, 'h) result" where
  "start_streaming hw s w =
     and_then
       (if dual_channel s
        then (let (r, w) = sdk hw (Start_streaming_func (card_no s) (hdl2 s)) w in
              if status r \<noteq> 0
              then (Throws ''Failure: start streaming'', s,
                    printf ''Error: could not start streaming, status %d, %s'' [sint (status r)] w)
              else (Returns (), s, w))
        else (Returns (), s, w))
       (\<lambda>_ s w.
          (let (r, w) = sdk hw (Start_streaming_func (card_no s) (hdl s)) w in
           if status r \<noteq> 0
           then (Throws ''Failure: start streaming'', s,
                 printf ''Error: could not start streaming, status %d, %s'' [sint (status r)] w)
           else (Returns (status r), s, w)))"

definition stop_streaming ::
  "'h hardware \<Rightarrow> 'h sidekiq_base \<Rightarrow> 'h world \<Rightarrow> (int32_t, 'h) result" where
  "stop_streaming hw s w =
     and_then
       (if dual_channel s
        then (let (r, w) = sdk hw (Stop_streaming_func (card_no s) (hdl2 s)) w in
              if status r \<noteq> 0
              then (Throws ''Failure: stop streaming'', s,
                    printf ''Error: could not stop streaming, status %d, %s'' [sint (status r)] w)
              else (Returns (), s, w))
        else (Returns (), s, w))
       (\<lambda>_ s w.
          (let (r, w) = sdk hw (Stop_streaming_func (card_no s) (hdl s)) w in
           if status r \<noteq> 0
           then (Throws ''Failure: stop streaming'', s,
                 printf ''Error: could not stop streaming, status %d, %s'' [sint (status r)] w)
           else (Returns (status r), s, w)))"

text \<open>
  \<open>set_samplerate_bandwidth\<close>. Both arguments are converted to \<open>uint32_t\<close> first.
  The cache is written after the primary call succeeded and before the secondary call.
\<close>

definition set_samplerate_bandwidth ::
  "'h hardware \<Rightarrow> 'h sidekiq_base \<Rightarrow> 'h world \<Rightarrow> real \<Rightarrow> real \<Rightarrow> (int32_t, 'h) result" where
  "set_samplerate_bandwidth hw s w sample_rate' bandwidth' =
     (case static_cast_uint32_t sample_rate' of
        None \<Rightarrow> (Undefined_behaviour, s, w)
      | Some rate \<Rightarrow>
     (case static_cast_uint32_t bandwidth' of
        None \<Rightarrow> (Undefined_behaviour, s, w)
      | Some bw \<Rightarrow>
        and_then
          (let (r, w) = sdk hw (Set_sample_rate_func (card_no s) (hdl s) rate bw) w in
           if status r \<noteq> 0
           then (Throws ''Failure: set samplerate'', s,
                 printf ''Error: could not set sample_rate, status %d, %s'' [sint (status r)] w)
           else (Returns (status r), s\<lparr>sample_rate := rate, bandwidth := bw\<rparr>, w))
          (\<lambda>status1 s w.
             if dual_channel s
             then (let (r, w) = sdk hw (Set_sample_rate_func (card_no s) (hdl2 s) rate bw) w in
                   if status r \<noteq> 0
                   then (Throws ''Failure: set samplerate'', s,
                         printf ''Error: could not set sample_rate, status %d, %s''
                           [sint (status r)] w)
                   else (Returns (status r), s, w))
             else (Returns status1, s, w))))"

text \<open>
  \<open>set_frequency\<close>. The conversion to \<open>uint64_t\<close> is written at each of the two calls.
\<close>

definition set_frequency ::
  "'h hardware \<Rightarrow> 'h sidekiq_base \<Rightarrow> 'h world \<Rightarrow> real \<Rightarrow> (int32_t, 'h) result" where
  "set_frequency hw s w val =
     and_then
       (if dual_channel s
        then (case static_cast_uint64_t val of
                None \<Rightarrow> (Undefined_behaviour, s, w)
              | Some f \<Rightarrow>
                  (let (r, w) = sdk hw (Set_frequency_func (card_no s) (hdl2 s) f) w in
                   if status r \<noteq> 0
                   then (Throws ''Failure: set frequency'', s,
                         printf ''Error: failed to set frequency, status %d, %s''
                           [sint (status r)] w)
                   else (Returns (), s, w)))
        else (Returns (), s, w))
       (\<lambda>_ s w.
          (case static_cast_uint64_t val of
             None \<Rightarrow> (Undefined_behaviour, s, w)
           | Some f \<Rightarrow>
               (let (r, w) = sdk hw (Set_frequency_func (card_no s) (hdl s) f) w in
                if status r \<noteq> 0
                then (Throws ''Failure: set frequency'', s,
                      printf ''Error: failed to set frequency, status %d, %s''
                        [sint (status r)] w)
                else (Returns (status r), s, w))))"

text \<open>
  \<open>get_set_frequency_call_latency\<close>. \<open>start\<close> and \<open>finish\<close> are the two readings of
  the host clock, in nanoseconds; the status of the frequency call is not looked at.
\<close>

definition get_set_frequency_call_latency ::
  "'h hardware \<Rightarrow> uint64_t \<Rightarrow> uint64_t \<Rightarrow> 'h sidekiq_base \<Rightarrow> 'h world \<Rightarrow> 'h \<Rightarrow>
   (uint64_t, 'h) result" where
  "get_set_frequency_call_latency hw start finish s w handle =
     (let frequency = 2400000000;
          (r, w) = sdk hw (Set_frequency_func (card_no s) handle frequency) w
      in (Returns (finish - start), s, w))"

subsection \<open>Sample hardware, for evaluation\<close>

text \<open>
  A card whose timestamp clock runs at 40 MHz and that has an accelerometer. With
  \<open>hw_fail_after n\<close> the first \<open>n\<close> calls succeed and every later call reports status
  \<open>-5\<close>; \<open>hw_all_ok\<close> lets every call succeed; \<open>hw_no_accel\<close> is a card without
  accelerometer; with \<open>hw_accel_state_fails\<close> only \<open>skiq_write_accel_state\<close> fails.
\<close>

definition sample_params :: "nat skiq_param_t" where
  "sample_params = \<lparr>rx_iq_resolution = (\<lambda>h. 12), tx_iq_resolution = (\<lambda>h. 12)\<rparr>"

definition reply_with :: "int32_t \<Rightarrow> nat sdk_reply" where
  "reply_with st = \<lparr>status = st, out_u64 = 40000000, out_flag = True, out_params = sample_params\<rparr>"

definition hw_all_ok :: "nat hardware" where
  "hw_all_ok history c = reply_with 0"

definition hw_fail_after :: "nat \<Rightarrow> nat hardware" where
  "hw_fail_after n history c = (if length history < n then reply_with 0 else reply_with (- 5))"

definition hw_no_accel :: "nat hardware" where
  "hw_no_accel history c = (reply_with 0)\<lparr>out_flag := False\<rparr>"

definition hw_accel_state_fails :: "nat hardware" where
  "hw_accel_state_fails history call =
     (case call of Skiq_write_accel_state c st \<Rightarrow> reply_with (- 5) | _ \<Rightarrow> reply_with 0)"

text \<open>
  A rounding for evaluation: to the nearest multiple of \<open>2^-53\<close>, the spacing of the
  \<open>double\<close> values between \<open>1/2\<close> and \<open>1\<close>.
\<close>

definition sample_rounding :: "real \<Rightarrow> real" where
  "sample_rounding x = real_of_int \<lfloor>x * 2 ^ 53 + 1 / 2\<rfloor> / 2 ^ 53"

definition sample_adapter :: "bool \<Rightarrow> nat sidekiq_base" where
  "sample_adapter dual =
     \<lparr>card_no = 0, hdl = 0, hdl2 = 1, dual_channel = dual, debug_ctr = 0,
      sample_rate = 1000000, bandwidth = 800000, timestamp_frequency = 40000000,
      sidekiq_system_time_interval_nanos = 25, sidekiq_params = sample_params,
      adc_scaling = 2047, dac_scaling = 2047\<rparr>"

definition new_world :: "nat world" where
  "new_world = \<lparr>calls = [], console = []\<rparr>"

section \<open>Properties\<close>

subsection \<open>Sample rate and bandwidth\<close>

lemma static_cast_uint32_t_floor:
  "0 \<le> x \<Longrightarrow> x < 2 ^ 32 \<Longrightarrow> static_cast_uint32_t x = Some (word_of_int \<lfloor>x\<rfloor>)"
  by (simp add: static_cast_uint32_t_def fp_trunc_def floor_less_iff)

lemma uint_floor_32:
  "0 \<le> (x :: real) \<Longrightarrow> x < 2 ^ 32 \<Longrightarrow> uint (word_of_int \<lfloor>x\<rfloor> :: 32 word) = \<lfloor>x\<rfloor>"
  by (simp add: uint_word_of_int floor_less_iff)

lemma cached_values_fit_32_bits:
  "uint (sample_rate s) < 2 ^ 32 \<and> uint (bandwidth s) < 2 ^ 32"
  using uint_lt2p [of "sample_rate s"] uint_lt2p [of "bandwidth s"] by simp

text \<open>
  Claim C1, as stated, fails: the cache is a 32-bit value, so for a non-negative rate of
  \<open>2^32\<close> or more it cannot hold \<open>floor r\<close>, whatever the conversion does (it is
  undefined there). Here the hardware lets every call succeed, the requested rate is
  \<open>4294967296\<close>, its conversion is undefined, and the cached rate afterwards is not
  \<open>floor 4294967296\<close>.
\<close>

theorem set_samplerate_bandwidth_counterexample:
  "(0 :: real) \<le> 4294967296 \<and> (0 :: real) \<le> 0 \<and>
   status (hw_all_ok [] (Set_sample_rate_func 0 0 0 0)) = 0 \<and>
   static_cast_uint32_t 4294967296 = None \<and>
   fst (set_samplerate_bandwidth hw_all_ok (sample_adapter False) new_world 4294967296 0) =
     Undefined_behaviour \<and>
   uint (sample_rate (fst (snd (set_samplerate_bandwidth hw_all_ok (sample_adapter False)
     new_world 4294967296 0)))) \<noteq> \<lfloor>4294967296 :: real\<rfloor>"
  using cached_values_fit_32_bits
    [of "fst (snd (set_samplerate_bandwidth hw_all_ok (sample_adapter False) new_world 4294967296 0))"]
  by (simp add: set_samplerate_bandwidth_def static_cast_uint32_t_def fp_trunc_def
      hw_all_ok_def reply_with_def)

text \<open>
  Claim C1, amended. For every call \<open>set_samplerate_bandwidth r b\<close> with
  \<open>0 \<le> r < 2^32\<close> and \<open>0 \<le> b < 2^32\<close>: if the call on the primary channel
  succeeds, the cached sample rate and bandwidth afterwards are exactly
  \<open>(floor r, floor b)\<close>; if it reports a non-zero status, the call raises a failure and
  the adapter object (the cached values with it) is unchanged; and in dual-channel mode a
  failure on the secondary channel raises a failure and leaves the truncated values of the
  primary channel cached.
\<close>

theorem set_samplerate_bandwidth_cache:
  assumes "0 \<le> r" and "r < 2 ^ 32" and "0 \<le> b" and "b < 2 ^ 32"
  shows "(let rate = word_of_int \<lfloor>r\<rfloor>; bw = word_of_int \<lfloor>b\<rfloor>;
              primary = Set_sample_rate_func (card_no s) (hdl s) rate bw;
              secondary = Set_sample_rate_func (card_no s) (hdl2 s) rate bw;
              (out, s', w') = set_samplerate_bandwidth hw s w r b
          in (status (hw (calls w) primary) = 0 \<longrightarrow>
                uint (sample_rate s') = \<lfloor>r\<rfloor> \<and> uint (bandwidth s') = \<lfloor>b\<rfloor>) \<and>
             (status (hw (calls w) primary) \<noteq> 0 \<longrightarrow>
                out = Throws ''Failure: set samplerate'' \<and> s' = s) \<and>
             (dual_channel s \<and> status (hw (calls w) primary) = 0 \<and>
              status (hw (calls w @ [primary]) secondary) \<noteq> 0 \<longrightarrow>
                out = Throws ''Failure: set samplerate'' \<and>
                uint (sample_rate s') = \<lfloor>r\<rfloor> \<and> uint (bandwidth s') = \<lfloor>b\<rfloor>))"
  using assms
  by (simp add: set_samplerate_bandwidth_def static_cast_uint32_t_floor uint_floor_32
      and_then_def sdk_def printf_def)

theorem set_samplerate_bandwidth_cache_witness:
  "(0 :: real) \<le> 2000000.5 \<and> (2000000.5 :: real) < 2 ^ 32 \<and>
   (0 :: real) \<le> 1500000 \<and> (1500000 :: real) < 2 ^ 32 \<and>
   status (hw_fail_after 1 [] (Set_sample_rate_func 0 0 2000000 1500000)) = 0 \<and>
   status (hw_fail_after 1 [Set_sample_rate_func 0 0 2000000 1500000]
             (Set_sample_rate_func 0 1 2000000 1500000)) \<noteq> 0 \<and>
   fst (set_samplerate_bandwidth (hw_fail_after 1) (sample_adapter True) new_world 2000000.5 1500000)
     = Throws ''Failure: set samplerate'' \<and>
   sample_rate (fst (snd (set_samplerate_bandwidth (hw_fail_after 1) (sample_adapter True)
     new_world 2000000.5 1500000))) = 2000000 \<and>
   bandwidth (fst (snd (set_samplerate_bandwidth (hw_fail_after 1) (sample_adapter True)
     new_world 2000000.5 1500000))) = 1500000"
  using set_samplerate_bandwidth_cache
    [where r = "2000000.5" and b = 1500000 and s = "sample_adapter True"
       and hw = "hw_fail_after 1" and w = new_world]
  by (simp add: set_samplerate_bandwidth_def static_cast_uint32_t_def fp_trunc_def
      and_then_def sdk_def printf_def hw_fail_after_def reply_with_def sample_adapter_def
      new_world_def)

subsection \<open>Calls whose status is not looked at\<close>

text \<open>
  Claim C2 does not hold of the code. \<open>get_set_frequency_call_latency\<close> returns its
  latency although the frequency call reported a non-zero status, and
  \<open>read_accelerometer\<close> returns normally although both \<open>skiq_write_accel_state\<close>
  calls reported a non-zero status. \<open>set_frequency\<close>, on the hardware that fails the
  frequency call, raises a failure.
\<close>

theorem unchecked_status_returns_normally:
  "status (hw_fail_after 0 [] (Set_frequency_func 0 0 2400000000)) \<noteq> 0 \<and>
   get_set_frequency_call_latency (hw_fail_after 0) 100 350 (sample_adapter False) new_world 0 =
     (Returns 250, sample_adapter False,
      \<lparr>calls = [Set_frequency_func 0 0 2400000000], console = []\<rparr>) \<and>
   status (hw_accel_state_fails [Skiq_is_accel_supported 0] (Skiq_write_accel_state 0 1)) \<noteq> 0 \<and>
   status (hw_accel_state_fails
             [Skiq_is_accel_supported 0, Skiq_write_accel_state 0 1, Skiq_read_accel 0]
             (Skiq_write_accel_state 0 0)) \<noteq> 0 \<and>
   read_accelerometer hw_accel_state_fails (sample_adapter False) new_world =
     (Returns (), sample_adapter False,
      \<lparr>calls = [Skiq_is_accel_supported 0, Skiq_write_accel_state 0 1, Skiq_read_accel 0,
                Skiq_write_accel_state 0 0],
       console = []\<rparr>) \<and>
   fst (set_frequency (hw_fail_after 0) (sample_adapter False) new_world 2400000000) =
     Throws ''Failure: set frequency''"
  by (simp add: get_set_frequency_call_latency_def read_accelerometer_def set_frequency_def
      static_cast_uint64_t_def fp_trunc_def and_then_def sdk_def printf_def
      hw_fail_after_def hw_accel_state_fails_def reply_with_def sample_adapter_def new_world_def)

subsection \<open>Streaming\<close>

text \<open>
  Claim C3. In dual-channel mode \<open>start_streaming\<close> and \<open>stop_streaming\<close> call the
  vendor streaming operation on the secondary handle first and on the primary handle
  after it (and not at all when the secondary call failed); in single-channel mode the
  only call is the one on the primary handle.
\<close>

theorem streaming_secondary_first:
  "calls (snd (snd (start_streaming hw s w))) =
     calls w @
       (if dual_channel s
        then (if status (hw (calls w) (Start_streaming_func (card_no s) (hdl2 s))) \<noteq> 0
              then [Start_streaming_func (card_no s) (hdl2 s)]
              else [Start_streaming_func (card_no s) (hdl2 s),
                    Start_streaming_func (card_no s) (hdl s)])
        else [Start_streaming_func (card_no s) (hdl s)]) \<and>
   calls (snd (snd (stop_streaming hw s w))) =
     calls w @
       (if dual_channel s
        then (if status (hw (calls w) (Stop_streaming_func (card_no s) (hdl2 s))) \<noteq> 0
              then [Stop_streaming_func (card_no s) (hdl2 s)]
              else [Stop_streaming_func (card_no s) (hdl2 s),
                    Stop_streaming_func (card_no s) (hdl s)])
        else [Stop_streaming_func (card_no s) (hdl s)])"
  by (simp add: start_streaming_def stop_streaming_def and_then_def sdk_def printf_def)

theorem streaming_secondary_first_witness:
  "calls (snd (snd (start_streaming hw_all_ok (sample_adapter True) new_world))) =
     [Start_streaming_func 0 1, Start_streaming_func 0 0] \<and>
   calls (snd (snd (stop_streaming hw_all_ok (sample_adapter True) new_world))) =
     [Stop_streaming_func 0 1, Stop_streaming_func 0 0]"
  using streaming_secondary_first [of hw_all_ok "sample_adapter True" new_world]
  by (simp add: hw_all_ok_def reply_with_def sample_adapter_def new_world_def)

subsection \<open>Frequency\<close>

lemma static_cast_uint64_t_floor:
  "0 \<le> x \<Longrightarrow> x < 2 ^ 64 \<Longrightarrow> static_cast_uint64_t x = Some (word_of_int \<lfloor>x\<rfloor>)"
  by (simp add: static_cast_uint64_t_def fp_trunc_def floor_less_iff)

lemma uint_floor_64:
  "0 \<le> (x :: real) \<Longrightarrow> x < 2 ^ 64 \<Longrightarrow> uint (word_of_int \<lfloor>x\<rfloor> :: 64 word) = \<lfloor>x\<rfloor>"
  by (simp add: uint_word_of_int floor_less_iff)

lemma frequency_target_fits_64_bits: "0 \<le> uint (v :: uint64_t) \<and> uint v < 2 ^ 64"
  using uint_lt2p [of v] by simp

text \<open>
  Claim C4, as stated for every \<open>f\<close>, fails: the target of the vendor call is a 64-bit
  unsigned value, so for \<open>f = 2^64\<close> and for \<open>f = -1\<close> it cannot be the truncated
  \<open>f\<close>, whatever the conversion does (it is undefined there). In dual-channel mode, on
  hardware that lets every call succeed, the conversion of both values is undefined and
  no vendor call is known to be made; the value left by a wrap-around is not the truncated
  \<open>f\<close> either.
\<close>

theorem set_frequency_out_of_range_counterexample:
  "dual_channel (sample_adapter True) \<and>
   static_cast_uint64_t 18446744073709551616 = None \<and>
   set_frequency hw_all_ok (sample_adapter True) new_world 18446744073709551616 =
     (Undefined_behaviour, sample_adapter True, new_world) \<and>
   uint (word_of_int \<lfloor>18446744073709551616 :: real\<rfloor> :: uint64_t)
     \<noteq> \<lfloor>18446744073709551616 :: real\<rfloor> \<and>
   static_cast_uint64_t (- 1) = None \<and>
   set_frequency hw_all_ok (sample_adapter True) new_world (- 1) =
     (Undefined_behaviour, sample_adapter True, new_world) \<and>
   uint (word_of_int \<lceil>- 1 :: real\<rceil> :: uint64_t) \<noteq> \<lceil>- 1 :: real\<rceil>"
proof -
  have high: "uint (word_of_int \<lfloor>18446744073709551616 :: real\<rfloor> :: uint64_t)
      \<noteq> \<lfloor>18446744073709551616 :: real\<rfloor>"
    using frequency_target_fits_64_bits [of "word_of_int \<lfloor>18446744073709551616 :: real\<rfloor>"]
    by simp
  have "\<lceil>- 1 :: real\<rceil> = - 1"
    by (simp add: ceiling_eq_iff)
  then have low: "uint (word_of_int \<lceil>- 1 :: real\<rceil> :: uint64_t) \<noteq> \<lceil>- 1 :: real\<rceil>"
    using frequency_target_fits_64_bits [of "word_of_int \<lceil>- 1 :: real\<rceil>"]
    by linarith
  show ?thesis
    using high low
    by (simp add: set_frequency_def static_cast_uint64_t_def fp_trunc_def and_then_def
        sample_adapter_def)
qed

text \<open>
  Claim C4, amended. For every call \<open>set_frequency f\<close> in dual-channel mode with
  \<open>0 \<le> f < 2^64\<close>: the vendor frequency operation is called on the secondary handle
  first and on the primary handle second, both with the target \<open>floor f\<close>, two calls
  when the first succeeds. A non-zero status of the secondary call raises a failure before
  the primary call is made; a non-zero status of the primary call raises a failure.
\<close>

theorem set_frequency_dual_in_range:
  assumes "dual_channel s" and "0 \<le> f" and "f < 2 ^ 64"
  shows "(let target = word_of_int \<lfloor>f\<rfloor>;
              secondary = Set_frequency_func (card_no s) (hdl2 s) target;
              primary = Set_frequency_func (card_no s) (hdl s) target;
              (out, s', w') = set_frequency hw s w f
          in uint target = \<lfloor>f\<rfloor> \<and>
             (if status (hw (calls w) secondary) \<noteq> 0
              then calls w' = calls w @ [secondary] \<and> out = Throws ''Failure: set frequency''
              else calls w' = calls w @ [secondary, primary] \<and>
                   (if status (hw (calls w @ [secondary]) primary) \<noteq> 0
                    then out = Throws ''Failure: set frequency''
                    else out = Returns 0)))"
  using assms
  by (simp add: set_frequency_def static_cast_uint64_t_floor uint_floor_64 and_then_def
      sdk_def printf_def)

theorem set_frequency_dual_in_range_witness:
  "dual_channel (sample_adapter True) \<and> (0 :: real) \<le> 2450000000.5 \<and>
   (2450000000.5 :: real) < 2 ^ 64 \<and>
   fst (set_frequency hw_all_ok (sample_adapter True) new_world 2450000000.5) = Returns 0 \<and>
   calls (snd (snd (set_frequency hw_all_ok (sample_adapter True) new_world 2450000000.5))) =
     [Set_frequency_func 0 1 2450000000, Set_frequency_func 0 0 2450000000] \<and>
   fst (set_frequency (hw_fail_after 0) (sample_adapter True) new_world 2450000000.5) =
     Throws ''Failure: set frequency'' \<and>
   calls (snd (snd (set_frequency (hw_fail_after 0) (sample_adapter True) new_world 2450000000.5))) =
     [Set_frequency_func 0 1 2450000000]"
  using set_frequency_dual_in_range
    [where s = "sample_adapter True" and f = "2450000000.5" and hw = hw_all_ok and w = new_world]
    set_frequency_dual_in_range
    [where s = "sample_adapter True" and f = "2450000000.5" and hw = "hw_fail_after 0"
       and w = new_world]
  by (simp add: hw_all_ok_def hw_fail_after_def reply_with_def sample_adapter_def new_world_def
      split: prod.splits)

subsection \<open>Telemetry\<close>

lemma mono_sample_rounding: "mono sample_rounding"
  unfolding sample_rounding_def
  by (intro monoI divide_right_mono of_int_le_iff [THEN iffD2] floor_mono) simp_all

lemma sample_rounding_fixes:
  "sample_rounding 0 = 0 \<and> sample_rounding (1 - 1 / 2 ^ 53) = 1 - 1 / 2 ^ 53"
  by (simp add: sample_rounding_def)

lemma remainder_below_second: "unat (t mod NANOSECONDS_IN_SECOND) < 1000000000"
proof -
  have "t mod NANOSECONDS_IN_SECOND < NANOSECONDS_IN_SECOND"
    by (rule word_mod_less_divisor) (simp add: NANOSECONDS_IN_SECOND_def)
  then show ?thesis
    by (simp add: word_less_nat_alt NANOSECONDS_IN_SECOND_def)
qed

lemma fractional_in_unit_interval:
  fixes rnd :: "real \<Rightarrow> real"
  assumes "mono rnd" and "rnd 0 = 0" and "rnd (1 - 1 / 2 ^ 53) = 1 - 1 / 2 ^ 53"
  shows "0 \<le> rnd (real (unat (t mod NANOSECONDS_IN_SECOND)) / 1000000000) \<and>
         rnd (real (unat (t mod NANOSECONDS_IN_SECOND)) / 1000000000) < 1"
proof -
  let ?q = "real (unat (t mod NANOSECONDS_IN_SECOND)) / 1000000000"
  have "unat (t mod NANOSECONDS_IN_SECOND) \<le> 999999999"
    using remainder_below_second [of t] by simp
  then have "real (unat (t mod NANOSECONDS_IN_SECOND)) \<le> 999999999"
    by (metis of_nat_le_iff of_nat_numeral)
  then have upper: "?q \<le> 1 - 1 / 2 ^ 53"
    by simp
  have lower: "0 \<le> ?q"
    by (intro divide_nonneg_nonneg of_nat_0_le_iff) simp
  from monoD [OF assms(1) lower] assms(2) have "0 \<le> rnd ?q" by simp
  moreover from monoD [OF assms(1) upper] assms(3) have "rnd ?q \<le> 1 - 1 / 2 ^ 53" by simp
  then have "rnd ?q < 1" by simp
  ultimately show ?thesis by simp
qed

lemma get_pmt_cons_from_timestamp_shape:
  assumes "mono rnd" and "rnd 0 = 0" and "rnd (1 - 1 / 2 ^ 53) = 1 - 1 / 2 ^ 53"
  shows "\<exists>secs frac. get_pmt_cons_from_timestamp rnd t = PMT_cons (PMT_long secs) (PMT_double frac) \<and>
           0 \<le> frac \<and> frac < 1"
  using fractional_in_unit_interval [OF assms, of t]
  by (simp add: get_pmt_cons_from_timestamp_def Let_def)

lemma get_telemetry_pmt_eq:
  "get_telemetry_pmt hw rnd now ku kh s w =
     (if status (hw (calls w) (Skiq_read_curr_sys_timestamp (card_no s))) \<noteq> 0
      then (Throws ''Failure: skiq_read_curr_sys_timestamp'', s,
            printf ''Error: failed to get system timestamp'' []
              (w\<lparr>calls := calls w @ [Skiq_read_curr_sys_timestamp (card_no s)]\<rparr>))
      else (Returns [ku \<mapsto> get_pmt_cons_from_timestamp rnd
                      (out_u64 (hw (calls w) (Skiq_read_curr_sys_timestamp (card_no s))) *
                       sidekiq_system_time_interval_nanos s),
                     kh \<mapsto> get_pmt_cons_from_timestamp rnd now],
            s, w\<lparr>calls := calls w @ [Skiq_read_curr_sys_timestamp (card_no s)]\<rparr>))"
  by (simp add: get_telemetry_pmt_def get_sidekiq_system_timestamp_def and_then_def sdk_def
      make_dict_def dict_add_def)

text \<open>
  Claim C5. \<open>get_telemetry_pmt\<close> returns whenever the timestamp read succeeds, and
  every value it returns is a dictionary whose keys are exactly the two telemetry keys
  (two keys, when the constants differ), each bound to a pair of whole seconds and a fraction of a second that lies in
  \<open>[0, 1)\<close>. The rounding of the division to a \<open>double\<close> is any monotone function
  that leaves \<open>0\<close> and \<open>1 - 2^-53\<close> (the largest \<open>double\<close> below \<open>1\<close>) in place.
\<close>

theorem get_telemetry_pmt_two_keys:
  assumes "mono rnd" and "rnd 0 = 0" and "rnd (1 - 1 / 2 ^ 53) = 1 - 1 / 2 ^ 53"
  shows "(status (hw (calls w) (Skiq_read_curr_sys_timestamp (card_no s))) = 0 \<longrightarrow>
            (\<exists>d. fst (get_telemetry_pmt hw rnd now ku kh s w) = Returns d)) \<and>
         (\<forall>d. fst (get_telemetry_pmt hw rnd now ku kh s w) = Returns d \<longrightarrow>
            dom d = {ku, kh} \<and> (ku \<noteq> kh \<longrightarrow> card (dom d) = 2) \<and>
            (\<forall>k \<in> dom d. \<exists>secs frac.
               d k = Some (PMT_cons (PMT_long secs) (PMT_double frac)) \<and> 0 \<le> frac \<and> frac < 1))"
proof (cases "status (hw (calls w) (Skiq_read_curr_sys_timestamp (card_no s))) = 0")
  case False
  then show ?thesis by (simp add: get_telemetry_pmt_eq)
next
  case True
  let ?u = "get_pmt_cons_from_timestamp rnd
              (out_u64 (hw (calls w) (Skiq_read_curr_sys_timestamp (card_no s))) *
               sidekiq_system_time_interval_nanos s)"
  let ?h = "get_pmt_cons_from_timestamp rnd now"
  have res: "fst (get_telemetry_pmt hw rnd now ku kh s w) = Returns [ku \<mapsto> ?u, kh \<mapsto> ?h]"
    using True by (simp add: get_telemetry_pmt_eq)
  have keys: "dom [ku \<mapsto> ?u, kh \<mapsto> ?h] = {ku, kh}" by auto
  have two: "card (dom [ku \<mapsto> ?u, kh \<mapsto> ?h]) = 2" if "ku \<noteq> kh"
    unfolding keys using that by simp
  have vals: "\<exists>secs frac. [ku \<mapsto> ?u, kh \<mapsto> ?h] k = Some (PMT_cons (PMT_long secs) (PMT_double frac))
                \<and> 0 \<le> frac \<and> frac < 1" if "k \<in> {ku, kh}" for k
    using that get_pmt_cons_from_timestamp_shape [OF assms] by (cases "k = kh") auto
  show ?thesis
    unfolding res using keys two vals by (simp del: fun_upd_apply dom_fun_upd)
qed

theorem get_telemetry_pmt_two_keys_witness:
  "mono sample_rounding \<and> sample_rounding 0 = 0 \<and>
   sample_rounding (1 - 1 / 2 ^ 53) = 1 - 1 / 2 ^ 53 \<and>
   fst (get_telemetry_pmt hw_all_ok sample_rounding 1700000000250000000 ''usrp_time'' ''host_time''
          (sample_adapter False) new_world) =
     Returns [''usrp_time'' \<mapsto> PMT_cons (PMT_long 1) (PMT_double 0),
              ''host_time'' \<mapsto> PMT_cons (PMT_long 1700000000) (PMT_double (1 / 4))] \<and>
   dom [''usrp_time'' \<mapsto> PMT_cons (PMT_long 1) (PMT_double 0),
        ''host_time'' \<mapsto> PMT_cons (PMT_long 1700000000) (PMT_double (1 / 4))] =
     {''usrp_time'', ''host_time''}"
proof -
  have r: "fst (get_telemetry_pmt hw_all_ok sample_rounding 1700000000250000000 ''usrp_time''
            ''host_time'' (sample_adapter False) new_world) =
     Returns [''usrp_time'' \<mapsto> PMT_cons (PMT_long 1) (PMT_double 0),
              ''host_time'' \<mapsto> PMT_cons (PMT_long 1700000000) (PMT_double (1 / 4))]"
    by (simp add: get_telemetry_pmt_eq get_pmt_cons_from_timestamp_def NANOSECONDS_IN_SECOND_def
        sample_rounding_def hw_all_ok_def reply_with_def sample_adapter_def new_world_def)
  from get_telemetry_pmt_two_keys [OF mono_sample_rounding sample_rounding_fixes [THEN conjunct1]
      sample_rounding_fixes [THEN conjunct2], of hw_all_ok new_world "sample_adapter False"
      1700000000250000000 "''usrp_time''" "''host_time''"] r
  show ?thesis
    using mono_sample_rounding sample_rounding_fixes by (simp del: fun_upd_apply dom_fun_upd)
qed

subsection \<open>Timestamp synchronization\<close>

lemma set_sync_type_keeps_object: "fst (snd (set_sync_type hw now s w type)) = s"
  by (simp add: set_sync_type_def set_zero_timestamp_def set_sidekiq_system_timestamp_def
      sdk_def printf_def Let_def)

lemma set_sync_type_system_time_calls:
  "sidekiq_system_time_interval_nanos s \<noteq> 0 \<Longrightarrow>
   calls (snd (snd (set_sync_type hw now s w SYNC_SYSTEM_TIME))) =
     calls w @ [Skiq_update_timestamps (card_no s) (now div sidekiq_system_time_interval_nanos s)]"
  by (simp add: set_sync_type_def SYNC_ZERO_def SYNC_GPS_PPS_def SYNC_SYSTEM_TIME_def
      set_sidekiq_system_timestamp_def sdk_def printf_def Let_def)

lemma sidekiq_base_ctor_eq:
  assumes "status (hw (calls w) (Skiq_init (ucast c))) = 0"
    and "status (hw (calls w @ [Skiq_init (ucast c)]) (Skiq_read_sys_timestamp_freq (ucast c))) = 0"
    and "out_u64 (hw (calls w @ [Skiq_init (ucast c)]) (Skiq_read_sys_timestamp_freq (ucast c))) = f"
    and "f \<noteq> 0"
  shows "sidekiq_base_ctor hw now raw w c sync_type p1 p2 =
     (let p = out_params (hw (calls w @ [Skiq_init (ucast c), Skiq_read_sys_timestamp_freq (ucast c)])
                (Skiq_read_parameters (ucast c)))
      in set_sync_type hw now
        (raw\<lparr>card_no := ucast c, hdl := p1, hdl2 := p2, dual_channel := False, debug_ctr := 0,
              timestamp_frequency := f,
              sidekiq_system_time_interval_nanos := 1000000000 div f,
              sidekiq_params := p,
              adc_scaling := 2 ^ rx_iq_resolution p p1 / 2 - 1,
              dac_scaling := 2 ^ tx_iq_resolution p p1 / 2 - 1\<rparr>)
        (w\<lparr>calls := calls w @ [Skiq_init (ucast c), Skiq_read_sys_timestamp_freq (ucast c),
                                Skiq_read_parameters (ucast c)]\<rparr>)
        sync_type)"
  using assms
  by (simp add: sidekiq_base_ctor_def get_sys_timestamp_frequency_def and_then_def sdk_def
      NANOSECONDS_IN_SECOND_def Let_def)

text \<open>
  Claim C6. With the host-clock mode selected and a non-zero cached interval,
  \<open>set_sync_type\<close> makes exactly one call to the hardware: it writes the host time in
  nanoseconds divided by the cached interval as the hardware timestamp. The constructor
  computes the cached interval as \<open>10^9\<close> integer-divided by the timestamp frequency it
  read from the hardware, and with the host-clock mode it ends with that write.
\<close>

theorem host_clock_sync_writes_converted_time:
  "(sidekiq_system_time_interval_nanos s \<noteq> 0 \<longrightarrow>
      set_sync_type hw now s w SYNC_SYSTEM_TIME =
        set_sidekiq_system_timestamp hw s w (now div sidekiq_system_time_interval_nanos s) \<and>
      calls (snd (snd (set_sync_type hw now s w SYNC_SYSTEM_TIME))) =
        calls w @ [Skiq_update_timestamps (card_no s)
                     (now div sidekiq_system_time_interval_nanos s)]) \<and>
   (status (hw (calls w) (Skiq_init (ucast c))) = 0 \<and>
    status (hw (calls w @ [Skiq_init (ucast c)]) (Skiq_read_sys_timestamp_freq (ucast c))) = 0 \<and>
    out_u64 (hw (calls w @ [Skiq_init (ucast c)]) (Skiq_read_sys_timestamp_freq (ucast c))) = f \<and>
    f \<noteq> 0 \<longrightarrow>
      sidekiq_system_time_interval_nanos
        (fst (snd (sidekiq_base_ctor hw now raw w c sync_type p1 p2))) = 1000000000 div f \<and>
      (1000000000 div f \<noteq> 0 \<longrightarrow>
         calls (snd (snd (sidekiq_base_ctor hw now raw w c SYNC_SYSTEM_TIME p1 p2))) =
           calls w @ [Skiq_init (ucast c), Skiq_read_sys_timestamp_freq (ucast c),
                      Skiq_read_parameters (ucast c),
                      Skiq_update_timestamps (ucast c) (now div (1000000000 div f))]))"
proof (intro conjI impI)
  assume "sidekiq_system_time_interval_nanos s \<noteq> 0"
  then show "set_sync_type hw now s w SYNC_SYSTEM_TIME =
        set_sidekiq_system_timestamp hw s w (now div sidekiq_system_time_interval_nanos s)"
    by (simp add: set_sync_type_def SYNC_ZERO_def SYNC_GPS_PPS_def SYNC_SYSTEM_TIME_def)
next
  assume "sidekiq_system_time_interval_nanos s \<noteq> 0"
  then show "calls (snd (snd (set_sync_type hw now s w SYNC_SYSTEM_TIME))) =
        calls w @ [Skiq_update_timestamps (card_no s)
                     (now div sidekiq_system_time_interval_nanos s)]"
    by (rule set_sync_type_system_time_calls)
next
  assume h: "status (hw (calls w) (Skiq_init (ucast c))) = 0 \<and>
    status (hw (calls w @ [Skiq_init (ucast c)]) (Skiq_read_sys_timestamp_freq (ucast c))) = 0 \<and>
    out_u64 (hw (calls w @ [Skiq_init (ucast c)]) (Skiq_read_sys_timestamp_freq (ucast c))) = f \<and>
    f \<noteq> 0"
  then show "sidekiq_system_time_interval_nanos
        (fst (snd (sidekiq_base_ctor hw now raw w c sync_type p1 p2))) = 1000000000 div f"
    by (simp add: sidekiq_base_ctor_eq [of hw w c f] set_sync_type_keeps_object Let_def)
next
  assume h: "status (hw (calls w) (Skiq_init (ucast c))) = 0 \<and>
    status (hw (calls w @ [Skiq_init (ucast c)]) (Skiq_read_sys_timestamp_freq (ucast c))) = 0 \<and>
    out_u64 (hw (calls w @ [Skiq_init (ucast c)]) (Skiq_read_sys_timestamp_freq (ucast c))) = f \<and>
    f \<noteq> 0"
  assume "1000000000 div f \<noteq> 0"
  with h show "calls (snd (snd (sidekiq_base_ctor hw now raw w c SYNC_SYSTEM_TIME p1 p2))) =
           calls w @ [Skiq_init (ucast c), Skiq_read_sys_timestamp_freq (ucast c),
                      Skiq_read_parameters (ucast c),
                      Skiq_update_timestamps (ucast c) (now div (1000000000 div f))]"
    by (simp add: sidekiq_base_ctor_eq [of hw w c f] set_sync_type_system_time_calls Let_def)
qed

theorem host_clock_sync_writes_converted_time_witness:
  "sidekiq_system_time_interval_nanos (sample_adapter False) \<noteq> 0 \<and>
   set_sync_type hw_all_ok 1700000000000000000 (sample_adapter False) new_world SYNC_SYSTEM_TIME =
     (Returns (), sample_adapter False,
      \<lparr>calls = [Skiq_update_timestamps 0 68000000000000000], console = []\<rparr>) \<and>
   status (hw_all_ok [] (Skiq_init 0)) = 0 \<and>
   status (hw_all_ok [Skiq_init 0] (Skiq_read_sys_timestamp_freq 0)) = 0 \<and>
   out_u64 (hw_all_ok [Skiq_init 0] (Skiq_read_sys_timestamp_freq 0)) = 40000000 \<and>
   sidekiq_system_time_interval_nanos
     (fst (snd (sidekiq_base_ctor hw_all_ok 1700000000000000000 (sample_adapter True) new_world
        0 SYNC_SYSTEM_TIME 0 1))) = 25 \<and>
   calls (snd (snd (sidekiq_base_ctor hw_all_ok 1700000000000000000 (sample_adapter True) new_world
        0 SYNC_SYSTEM_TIME 0 1))) =
     [Skiq_init 0, Skiq_read_sys_timestamp_freq 0, Skiq_read_parameters 0,
      Skiq_update_timestamps 0 68000000000000000]"
  using host_clock_sync_writes_converted_time
    [where s = "sample_adapter False" and hw = hw_all_ok and now = 1700000000000000000
       and w = new_world and c = 0 and f = 40000000 and raw = "sample_adapter True"
       and sync_type = SYNC_SYSTEM_TIME and ?p1.0 = 0 and ?p2.0 = 1]
  by (simp add: set_sidekiq_system_timestamp_def sdk_def hw_all_ok_def reply_with_def
      sample_adapter_def new_world_def)

text \<open>
  Claim C8. Selecting the external-pulse (pulse-per-second) synchronization mode, whose
  selector is 2, performs no hardware action: \<open>set_sync_type\<close> with that mode returns
  normally, and the adapter object and the world (the calls made to the vendor library,
  the console) are what they were before the call.
\<close>

theorem set_sync_type_gps_pps_noop:
  "SYNC_GPS_PPS = 2 \<and> set_sync_type hw now s w SYNC_GPS_PPS = (Returns (), s, w)"
  by (simp add: set_sync_type_def SYNC_ZERO_def SYNC_GPS_PPS_def)

text \<open>
  Claim C9. For every synchronization-type value other than the three recognized
  selectors (1, 2 and 3), \<open>set_sync_type\<close> does nothing: it returns normally, with the
  adapter object and the world (calls and console) unchanged.
\<close>

theorem set_sync_type_unrecognized_noop:
  "type \<noteq> 1 \<Longrightarrow> type \<noteq> 2 \<Longrightarrow> type \<noteq> 3 \<Longrightarrow> set_sync_type hw now s w type = (Returns (), s, w)"
  by (simp add: set_sync_type_def SYNC_ZERO_def SYNC_GPS_PPS_def SYNC_SYSTEM_TIME_def)

theorem set_sync_type_unrecognized_noop_witness:
  "(7 :: int32_t) \<noteq> 1 \<and> (7 :: int32_t) \<noteq> 2 \<and> (7 :: int32_t) \<noteq> 3 \<and>
   set_sync_type hw_all_ok 1700000000000000000 (sample_adapter False) new_world 7 =
     (Returns (), sample_adapter False, new_world)"
  using set_sync_type_unrecognized_noop
    [of 7 hw_all_ok 1700000000000000000 "sample_adapter False" new_world]
  by simp

subsection \<open>Accelerometer\<close>

text \<open>
  Claim C7. When the hardware reports that the accelerometer is not supported,
  \<open>read_accelerometer\<close> returns normally with the adapter object unchanged, its only
  call to the hardware is the query, and it prints one informational line; when the
  accelerometer is supported, the calls are the query, power on, one sample, power off, in
  this order.
\<close>

theorem read_accelerometer_supported_or_not:
  "(\<not> out_flag (hw (calls w) (Skiq_is_accel_supported (card_no s))) \<longrightarrow>
      read_accelerometer hw s w =
        (Returns (), s,
         w\<lparr>calls := calls w @ [Skiq_is_accel_supported (card_no s)],
           console := console w @ [(''Info: accelerometer not supported with product'', [])]\<rparr>)) \<and>
   (out_flag (hw (calls w) (Skiq_is_accel_supported (card_no s))) \<longrightarrow>
      calls (snd (snd (read_accelerometer hw s w))) =
        calls w @ [Skiq_is_accel_supported (card_no s), Skiq_write_accel_state (card_no s) 1,
                   Skiq_read_accel (card_no s), Skiq_write_accel_state (card_no s) 0])"
  by (simp add: read_accelerometer_def sdk_def printf_def)

theorem read_accelerometer_supported_or_not_witness:
  "\<not> out_flag (hw_no_accel [] (Skiq_is_accel_supported 0)) \<and>
   read_accelerometer hw_no_accel (sample_adapter False) new_world =
     (Returns (), sample_adapter False,
      \<lparr>calls = [Skiq_is_accel_supported 0],
       console = [(''Info: accelerometer not supported with product'', [])]\<rparr>) \<and>
   out_flag (hw_all_ok [] (Skiq_is_accel_supported 0)) \<and>
   calls (snd (snd (read_accelerometer hw_all_ok (sample_adapter False) new_world))) =
     [Skiq_is_accel_supported 0, Skiq_write_accel_state 0 1, Skiq_read_accel 0,
      Skiq_write_accel_state 0 0]"
  using read_accelerometer_supported_or_not [of hw_no_accel new_world "sample_adapter False"]
    read_accelerometer_supported_or_not [of hw_all_ok new_world "sample_adapter False"]
  by (simp add: hw_no_accel_def hw_all_ok_def reply_with_def sample_adapter_def new_world_def)

text \<open>
  Claim C10. When the accelerometer is supported, the last call \<open>read_accelerometer\<close>
  makes before it returns or raises is the power-off command; when the sample read
  reports a non-zero status the failure is raised after it.
\<close>

theorem read_accelerometer_powers_off:
  assumes "out_flag (hw (calls w) (Skiq_is_accel_supported (card_no s)))"
  shows "last (calls (snd (snd (read_accelerometer hw s w)))) = Skiq_write_accel_state (card_no s) 0 \<and>
         (status (hw (calls w @ [Skiq_is_accel_supported (card_no s), Skiq_write_accel_state (card_no s) 1])
                     (Skiq_read_accel (card_no s))) \<noteq> 0 \<longrightarrow>
            fst (read_accelerometer hw s w) = Throws ''Failure: skiq_write_accel_state'') \<and>
         (status (hw (calls w @ [Skiq_is_accel_supported (card_no s), Skiq_write_accel_state (card_no s) 1])
                     (Skiq_read_accel (card_no s))) = 0 \<longrightarrow>
            fst (read_accelerometer hw s w) = Returns ())"
  using assms by (simp add: read_accelerometer_def sdk_def printf_def)

theorem read_accelerometer_powers_off_witness:
  "out_flag (hw_fail_after 2 [] (Skiq_is_accel_supported 0)) \<and>
   status (hw_fail_after 2 [Skiq_is_accel_supported 0, Skiq_write_accel_state 0 1]
             (Skiq_read_accel 0)) \<noteq> 0 \<and>
   last (calls (snd (snd (read_accelerometer (hw_fail_after 2) (sample_adapter False) new_world))))
     = Skiq_write_accel_state 0 0 \<and>
   fst (read_accelerometer (hw_fail_after 2) (sample_adapter False) new_world)
     = Throws ''Failure: skiq_write_accel_state''"
  using read_accelerometer_powers_off [of "hw_fail_after 2" new_world "sample_adapter False"]
  by (simp add: hw_fail_after_def reply_with_def sample_adapter_def new_world_def)

end
